theory Spec2Isabelle
  imports Main
begin

section \<open>Python values\<close>

text \<open>
  The modules handle what the JSON decoder and the argument parser hand them: \<open>None\<close>,
  booleans, integers, strings, lists and dictionaries. A dictionary is an association list
  in insertion order with distinct keys. Numbers with a fractional part are left out.
\<close>

datatype json =
    JNull
  | JBool bool
  | JInt int
  | JStr string
  | JList "json list"
  | JDict "(string \<times> json) list"

text \<open>The exceptions the modules can meet: a missing key, and an operation on the wrong type.\<close>

datatype exn = KeyError string | TypeError

text \<open>\<open>obj[key]\<close> with a string key: only a dictionary can answer, and only for a key it has.\<close>

fun py_getitem :: "json \<Rightarrow> string \<Rightarrow> exn + json" where
  "py_getitem (JDict d) k = (case map_of d k of None \<Rightarrow> Inl (KeyError k) | Some v \<Rightarrow> Inr v)"
| "py_getitem _ k = Inl TypeError"

text \<open>\<open>d[key] = value\<close>: an existing key keeps its place, a new key goes to the end.\<close>

fun py_setitem :: "(string \<times> json) list \<Rightarrow> string \<Rightarrow> json \<Rightarrow> (string \<times> json) list" where
  "py_setitem [] k v = [(k, v)]"
| "py_setitem ((k', v') # d) k v =
     (if k' = k then (k, v) # d else (k', v') # py_setitem d k v)"

text \<open>
  \<open>for each in obj\<close>: a list gives its elements, a dictionary its keys, a string its
  characters; anything else is not iterable.
\<close>

fun py_iter :: "json \<Rightarrow> exn + json list" where
  "py_iter (JList xs) = Inr xs"
| "py_iter (JDict d) = Inr (map (\<lambda>kv. JStr (fst kv)) d)"
| "py_iter (JStr s) = Inr (map (\<lambda>c. JStr [c]) s)"
| "py_iter _ = Inl TypeError"

text \<open>
  \<open>a == b\<close>: exact, case-sensitive equality, with Python's two quirks on these values:
  \<open>True == 1\<close> and \<open>False == 0\<close>, and dictionaries compare without regard to order.
\<close>

fun py_eq :: "json \<Rightarrow> json \<Rightarrow> bool"
  and py_eq_list :: "json list \<Rightarrow> json list \<Rightarrow> bool"
  and py_eq_items :: "(string \<times> json) list \<Rightarrow> (string \<times> json) list \<Rightarrow> bool"
where
  "py_eq JNull y = (case y of JNull \<Rightarrow> True | _ \<Rightarrow> False)"
| "py_eq (JBool a) y =
     (case y of JBool b \<Rightarrow> a = b | JInt n \<Rightarrow> (if a then 1 else 0) = n | _ \<Rightarrow> False)"
| "py_eq (JInt m) y =
     (case y of JInt n \<Rightarrow> m = n | JBool b \<Rightarrow> m = (if b then 1 else 0) | _ \<Rightarrow> False)"
| "py_eq (JStr s) y = (case y of JStr t \<Rightarrow> s = t | _ \<Rightarrow> False)"
| "py_eq (JList xs) y = (case y of JList ys \<Rightarrow> py_eq_list xs ys | _ \<Rightarrow> False)"
| "py_eq (JDict a) y =
     (case y of JDict b \<Rightarrow> length a = length b \<and> py_eq_items a b | _ \<Rightarrow> False)"
| "py_eq_list [] ys = (case ys of [] \<Rightarrow> True | _ \<Rightarrow> False)"
| "py_eq_list (x # xs) ys =
     (case ys of [] \<Rightarrow> False | y # ys' \<Rightarrow> py_eq x y \<and> py_eq_list xs ys')"
| "py_eq_items [] b = True"
| "py_eq_items ((k, v) # a) b =
     (case map_of b k of None \<Rightarrow> False | Some w \<Rightarrow> py_eq v w \<and> py_eq_items a b)"

section \<open>The module, the transport and what a run leaves behind\<close>

text \<open>\<open>module.params\<close>: the task's arguments by name; an option not given is \<open>None\<close>.\<close>

type_synonym params = "(string \<times> json) list"

definition param :: "params \<Rightarrow> string \<Rightarrow> exn + json" where
  "param ps k = py_getitem (JDict ps) k"

text \<open>
  A request path. \<open>Lit p\<close> is the literal \<open>p\<close>; \<open>Sub p v\<close> is the f-string
  \<open>f"{p}/{v}"\<close> with the value \<open>v\<close> it interpolates, kept as a value because Python's
  \<open>str()\<close> of an arbitrary object is not modelled. \<open>path_str\<close> spells the path out
  when \<open>v\<close> is a string.
\<close>

datatype path = Lit string | Sub string json

fun path_str :: "path \<Rightarrow> string option" where
  "path_str (Lit p) = Some p"
| "path_str (Sub p (JStr s)) = Some (p @ ''/'' @ s)"
| "path_str (Sub p _) = None"

text \<open>What \<open>rest.get\<close>, \<open>rest.post\<close> and \<open>rest.delete\<close> return.\<close>

record response =
  status_code :: int
  json :: json
  info :: json

text \<open>
  The transport (\<open>ApstraHelper\<close>, which is not part of the modules) is a parameter: any
  three functions from requests to responses. A run makes one fetch and at most one
  further request, so functions of the request lose no generality.
\<close>

record transport =
  rest_get :: "path \<Rightarrow> response"
  rest_post :: "path \<Rightarrow> json \<Rightarrow> response"
  rest_delete :: "path \<Rightarrow> response"

datatype call = GET path | POST path json | DELETE path

text \<open>
  The three messages of \<open>module.fail_json\<close>: the fetch's status was not 200
  (with \<open>response.info\<close>), the fetched body is not a dictionary, and the text of an
  exception caught in \<open>main\<close>.
\<close>

datatype failure = Bad_status json | Not_a_dictionary | Exception exn

text \<open>\<open>module.exit_json(changed, data)\<close> and \<open>module.fail_json(msg)\<close> both end the process.\<close>

datatype exit = Exit_json bool json | Fail_json failure

text \<open>
  A function of the modules either exits through the module or lets an exception escape;
  the requests made until then are kept in order.
\<close>

type_synonym run = "call list \<times> (exn + exit)"

definition after :: "call \<Rightarrow> run \<Rightarrow> run" where
  "after c r = (c # fst r, snd r)"

section \<open>The eleven element functions\<close>

text \<open>
  \<open>resources.py\<close>, \<open>design.py\<close> and \<open>blueprint.py\<close> repeat one function body eleven
  times. The constructors are the functions' names; the tables below hold what differs
  from one copy to the next.
\<close>

datatype kind =
    External_routers | Ipv4_pool | Ipv6_pool | Asn_pool | Vlan_pool | Vni_pool
  | Rack_types | Interface_maps | Logical_device | Templates
  | Build_blueprint

text \<open>The path of the POST, and the prefix of the DELETE.\<close>

fun collection :: "kind \<Rightarrow> string" where
  "collection External_routers = ''resources/external-routers''"
| "collection Ipv4_pool = ''resources/ip-pools''"
| "collection Ipv6_pool = ''resources/ipv6-pools''"
| "collection Asn_pool = ''resources/asn-pools''"
| "collection Vlan_pool = ''resources/vlan-pools''"
| "collection Vni_pool = ''resources/vni-pools''"
| "collection Rack_types = ''design/rack-types''"
| "collection Interface_maps = ''design/interface-maps''"
| "collection Logical_device = ''design/logical-devices''"
| "collection Templates = ''design/templates''"
| "collection Build_blueprint = ''blueprints''"

text \<open>The field of a fetched entry that the loop compares.\<close>

fun key_field :: "kind \<Rightarrow> string" where
  "key_field Rack_types = ''id''"
| "key_field Interface_maps = ''label''"
| "key_field Build_blueprint = ''label''"
| "key_field _ = ''display_name''"

text \<open>
  The declared value it is compared with: \<open>module.params[key]\<close>, and for templates
  \<open>module.params['design_template']['display_name']\<close>.
\<close>

fun declared :: "kind \<Rightarrow> params \<Rightarrow> exn + json" where
  "declared Templates ps =
     (case param ps ''design_template'' of
        Inl e \<Rightarrow> Inl e
      | Inr t \<Rightarrow> py_getitem t ''display_name'')"
| "declared k ps = param ps (key_field k)"

text \<open>The dictionary each function starts with.\<close>

fun fresh :: "kind \<Rightarrow> (string \<times> json) list" where
  "fresh Rack_types = [(''id'', JNull), (''provisioned'', JBool False)]"
| "fresh Interface_maps = [(''id'', JNull), (''label'', JNull), (''provisioned'', JBool False)]"
| "fresh Build_blueprint = [(''id'', JNull), (''label'', JNull), (''provisioned'', JBool False)]"
| "fresh _ = [(''display_name'', JNull), (''id'', JNull), (''provisioned'', JBool False)]"

text \<open>
  The body of the \<open>if\<close> inside the loop: copy the entry's fields, then set \<open>provisioned\<close>.
  The pools, the routers, the logical devices and the templates read the name before the
  id; the interface maps and the blueprints the id before the label; the rack types the id
  alone.
\<close>

fun remember :: "kind \<Rightarrow> json \<Rightarrow> (string \<times> json) list \<Rightarrow> exn + (string \<times> json) list" where
  "remember Rack_types each d =
     (case py_getitem each ''id'' of
        Inl e \<Rightarrow> Inl e
      | Inr i \<Rightarrow> Inr (py_setitem (py_setitem d ''id'' i) ''provisioned'' (JBool True)))"
| "remember Interface_maps each d =
     (case py_getitem each ''id'' of
        Inl e \<Rightarrow> Inl e
      | Inr i \<Rightarrow>
         (case py_getitem each ''label'' of
            Inl e \<Rightarrow> Inl e
          | Inr l \<Rightarrow>
             Inr (py_setitem (py_setitem (py_setitem d ''id'' i) ''label'' l)
                    ''provisioned'' (JBool True))))"
| "remember Build_blueprint each d =
     (case py_getitem each ''id'' of
        Inl e \<Rightarrow> Inl e
      | Inr i \<Rightarrow>
         (case py_getitem each ''label'' of
            Inl e \<Rightarrow> Inl e
          | Inr l \<Rightarrow>
             Inr (py_setitem (py_setitem (py_setitem d ''id'' i) ''label'' l)
                    ''provisioned'' (JBool True))))"
| "remember k each d =
     (case py_getitem each ''display_name'' of
        Inl e \<Rightarrow> Inl e
      | Inr n \<Rightarrow>
         (case py_getitem each ''id'' of
            Inl e \<Rightarrow> Inl e
          | Inr i \<Rightarrow>
             Inr (py_setitem (py_setitem (py_setitem d ''display_name'' n) ''id'' i)
                    ''provisioned'' (JBool True))))"

text \<open>
  The condition of that \<open>if\<close>: the entry's field, then the declared value, then \<open>==\<close>.
  Either read can raise.
\<close>

definition is_match :: "kind \<Rightarrow> params \<Rightarrow> json \<Rightarrow> exn + bool" where
  "is_match k ps each =
     (case py_getitem each (key_field k) of
        Inl e \<Rightarrow> Inl e
      | Inr v \<Rightarrow>
         (case declared k ps of
            Inl e \<Rightarrow> Inl e
          | Inr w \<Rightarrow> Inr (py_eq v w)))"

text \<open>The loop over the entries: every match overwrites what an earlier one stored.\<close>

fun scan :: "kind \<Rightarrow> params \<Rightarrow> json list \<Rightarrow> (string \<times> json) list \<Rightarrow> exn + (string \<times> json) list" where
  "scan k ps [] d = Inr d"
| "scan k ps (each # rest) d =
     (case is_match k ps each of
        Inl e \<Rightarrow> Inl e
      | Inr True \<Rightarrow>
         (case remember k each d of
            Inl e \<Rightarrow> Inl e
          | Inr d' \<Rightarrow> scan k ps rest d')
      | Inr False \<Rightarrow> scan k ps rest d)"

text \<open>The first part of each function: the fresh dictionary and the loop over \<open>resources["items"]\<close>.\<close>

definition find_element :: "kind \<Rightarrow> params \<Rightarrow> json \<Rightarrow> exn + (string \<times> json) list" where
  "find_element k ps resources =
     (case py_getitem resources ''items'' of
        Inl e \<Rightarrow> Inl e
      | Inr items \<Rightarrow>
         (case py_iter items of
            Inl e \<Rightarrow> Inl e
          | Inr entries \<Rightarrow> scan k ps entries (fresh k)))"

text \<open>Reading the named parameters, in order, into a new dictionary: \<open>dict(a=src['a'], ...)\<close>.\<close>

fun pick :: "json \<Rightarrow> string list \<Rightarrow> exn + (string \<times> json) list" where
  "pick src [] = Inr []"
| "pick src (k # ks) =
     (case py_getitem src k of
        Inl e \<Rightarrow> Inl e
      | Inr v \<Rightarrow> (case pick src ks of Inl e \<Rightarrow> Inl e | Inr d \<Rightarrow> Inr ((k, v) # d)))"

text \<open>The subnets loop of the two IP pool functions: each subnet becomes \<open>{'network': subnet}\<close>.\<close>

definition subnets_payload :: "params \<Rightarrow> exn + json list" where
  "subnets_payload ps =
     (case param ps ''subnets'' of
        Inl e \<Rightarrow> Inl e
      | Inr subnets \<Rightarrow>
         (case py_iter subnets of
            Inl e \<Rightarrow> Inl e
          | Inr xs \<Rightarrow> Inr (map (\<lambda>each. JDict [(''network'', each)]) xs)))"

definition ip_pool_data :: "params \<Rightarrow> exn + json" where
  "ip_pool_data ps =
     (case subnets_payload ps of
        Inl e \<Rightarrow> Inl e
      | Inr sp \<Rightarrow>
         (case param ps ''display_name'' of
            Inl e \<Rightarrow> Inl e
          | Inr n \<Rightarrow>
             (case param ps ''tags'' of
                Inl e \<Rightarrow> Inl e
              | Inr t \<Rightarrow>
                 Inr (JDict [(''display_name'', n), (''subnets'', JList sp), (''tags'', t)]))))"

definition picked :: "json \<Rightarrow> string list \<Rightarrow> exn + json" where
  "picked src ks = (case pick src ks of Inl e \<Rightarrow> Inl e | Inr d \<Rightarrow> Inr (JDict d))"

text \<open>The dictionary each function posts.\<close>

fun create_data :: "kind \<Rightarrow> params \<Rightarrow> exn + json" where
  "create_data External_routers ps =
     picked (JDict ps) [''display_name'', ''asn'', ''address'', ''ipv6_address'']"
| "create_data Ipv4_pool ps = ip_pool_data ps"
| "create_data Ipv6_pool ps = ip_pool_data ps"
| "create_data Asn_pool ps = picked (JDict ps) [''display_name'', ''ranges'', ''tags'']"
| "create_data Vlan_pool ps = picked (JDict ps) [''display_name'', ''ranges'', ''tags'']"
| "create_data Vni_pool ps = picked (JDict ps) [''display_name'', ''ranges'', ''tags'']"
| "create_data Rack_types ps =
     picked (JDict ps) [''access_switches'', ''description'', ''display_name'', ''id'',
       ''leafs'', ''logical_devices'', ''servers'']"
| "create_data Interface_maps ps =
     picked (JDict ps) [''device_profile_id'', ''logical_device_id'', ''interfaces'', ''label'']"
| "create_data Logical_device ps = picked (JDict ps) [''display_name'', ''panels'']"
| "create_data Templates ps =
     (case param ps ''design_template'' of
        Inl e \<Rightarrow> Inl e
      | Inr t \<Rightarrow>
         picked t [''asn_allocation_policy'', ''dhcp_service_intent'', ''display_name'',
           ''external_routing_policy'', ''fabric_addressing_policy'', ''rack_type_counts'',
           ''rack_types'', ''spine'', ''type'', ''virtual_network_policy''])"
| "create_data Build_blueprint ps =
     picked (JDict ps) [''design'', ''init_type'', ''template_id'', ''label'']"

text \<open>Whether the function reads \<open>response.json['id']\<close> after the POST.\<close>

fun reads_id :: "kind \<Rightarrow> bool" where
  "reads_id Rack_types = False"
| "reads_id Interface_maps = False"
| "reads_id Templates = False"
| "reads_id Build_blueprint = False"
| "reads_id _ = True"

text \<open>The message for a delete of what is not there.\<close>

fun does_not_exist :: "kind \<Rightarrow> string" where
  "does_not_exist External_routers = ''External Router does not exist, exiting''"
| "does_not_exist Ipv4_pool = ''IP Pool does not exist, exiting''"
| "does_not_exist Ipv6_pool = ''IPv6 Pool does not exist, exiting''"
| "does_not_exist Asn_pool = ''ASN Pool does not exist, exiting''"
| "does_not_exist Vlan_pool = ''VLAN Pool does not exist, exiting''"
| "does_not_exist Vni_pool = ''VNI Pool does not exist, exiting''"
| "does_not_exist Rack_types = ''Rack Type does not exist, exiting''"
| "does_not_exist Interface_maps = ''Interface Mapping does not exist, exiting''"
| "does_not_exist Logical_device = ''Logical Device does not exist, exiting''"
| "does_not_exist Templates = ''Template does not exist, exiting''"
| "does_not_exist Build_blueprint = ''Interface Mapping does not exist, exiting''"

text \<open>The six functions of \<open>resources.py\<close> test the fetched body themselves.\<close>

fun checks_dict :: "kind \<Rightarrow> bool" where
  "checks_dict Rack_types = False"
| "checks_dict Interface_maps = False"
| "checks_dict Logical_device = False"
| "checks_dict Templates = False"
| "checks_dict Build_blueprint = False"
| "checks_dict _ = True"

fun is_dict :: "json \<Rightarrow> bool" where
  "is_dict (JDict d) = True"
| "is_dict _ = False"

text \<open>The \<open>absent\<close> branch: delete what was found, or say that nothing was.\<close>

definition absent :: "kind \<Rightarrow> (string \<times> json) list \<Rightarrow> transport \<Rightarrow> run" where
  "absent k d rest =
     (case py_getitem (JDict d) ''provisioned'' of
        Inl e \<Rightarrow> ([], Inl e)
      | Inr p \<Rightarrow>
         if p = JBool True then
           (case py_getitem (JDict d) ''id'' of
              Inl e \<Rightarrow> ([], Inl e)
            | Inr i \<Rightarrow>
               ([DELETE (Sub (collection k) i)],
                Inr (Exit_json True (json (rest_delete rest (Sub (collection k) i))))))
         else ([], Inr (Exit_json False (JStr (does_not_exist k)))))"

text \<open>The \<open>else\<close> branch: create what was not found, or report what was.\<close>

definition present :: "kind \<Rightarrow> (string \<times> json) list \<Rightarrow> params \<Rightarrow> transport \<Rightarrow> run" where
  "present k d ps rest =
     (case py_getitem (JDict d) ''provisioned'' of
        Inl e \<Rightarrow> ([], Inl e)
      | Inr p \<Rightarrow>
         if p = JBool False then
           (case create_data k ps of
              Inl e \<Rightarrow> ([], Inl e)
            | Inr data \<Rightarrow>
               (let response = rest_post rest (Lit (collection k)) data in
                if reads_id k then
                  (case py_getitem (json response) ''id'' of
                     Inl e \<Rightarrow> ([POST (Lit (collection k)) data], Inl e)
                   | Inr i \<Rightarrow>
                      ([POST (Lit (collection k)) data], Inr (Exit_json True (json response))))
                else ([POST (Lit (collection k)) data], Inr (Exit_json True (json response)))))
         else ([], Inr (Exit_json False (JDict d))))"

text \<open>One element function, from the dictionary test to its last \<open>exit_json\<close>.\<close>

definition element :: "kind \<Rightarrow> json \<Rightarrow> params \<Rightarrow> transport \<Rightarrow> run" where
  "element k resources ps rest =
     (if checks_dict k \<and> \<not> is_dict resources then ([], Inr (Fail_json Not_a_dictionary))
      else
        (case find_element k ps resources of
           Inl e \<Rightarrow> ([], Inl e)
         | Inr d \<Rightarrow>
            (case param ps ''state'' of
               Inl e \<Rightarrow> ([], Inl e)
             | Inr s \<Rightarrow>
                if py_eq s (JStr ''absent'') then absent k d rest else present k d ps rest)))"

section \<open>The three modules\<close>

datatype plugin = Resources | Design | Blueprint

text \<open>\<open>core\<close> of \<open>resources.py\<close>.\<close>

definition resources_core :: "params \<Rightarrow> transport \<Rightarrow> run" where
  "resources_core ps rest =
     (case param ps ''type'' of
        Inl e \<Rightarrow> ([], Inl e)
      | Inr t \<Rightarrow>
         (let response = rest_get rest (Sub ''resources'' t) in
          after (GET (Sub ''resources'' t))
            (if status_code response \<noteq> 200 then ([], Inr (Fail_json (Bad_status (info response))))
             else
               (let resources = json response in
                if py_eq t (JStr ''ip-pools'') then element Ipv4_pool resources ps rest
                else if py_eq t (JStr ''ipv6-pools'') then element Ipv6_pool resources ps rest
                else if py_eq t (JStr ''external-routers'') then
                  element External_routers resources ps rest
                else if py_eq t (JStr ''asn-pools'') then element Asn_pool resources ps rest
                else if py_eq t (JStr ''vlan-pools'') then element Vlan_pool resources ps rest
                else if py_eq t (JStr ''vni-pools'') then element Vni_pool resources ps rest
                else ([], Inr (Exit_json False resources))))))"

text \<open>\<open>core\<close> of \<open>design.py\<close>.\<close>

definition design_core :: "params \<Rightarrow> transport \<Rightarrow> run" where
  "design_core ps rest =
     (case param ps ''type'' of
        Inl e \<Rightarrow> ([], Inl e)
      | Inr t \<Rightarrow>
         (let response = rest_get rest (Sub ''design'' t) in
          after (GET (Sub ''design'' t))
            (if status_code response \<noteq> 200 then ([], Inr (Fail_json (Bad_status (info response))))
             else
               (let resources = json response in
                if \<not> is_dict resources then ([], Inr (Fail_json Not_a_dictionary))
                else if py_eq t (JStr ''logical-devices'') then
                  element Logical_device resources ps rest
                else if py_eq t (JStr ''interface-maps'') then
                  element Interface_maps resources ps rest
                else if py_eq t (JStr ''rack-types'') then element Rack_types resources ps rest
                else if py_eq t (JStr ''templates'') then element Templates resources ps rest
                else ([], Inr (Exit_json False resources))))))"

text \<open>\<open>core\<close> of \<open>blueprint.py\<close>.\<close>

definition blueprint_core :: "params \<Rightarrow> transport \<Rightarrow> run" where
  "blueprint_core ps rest =
     (let response = rest_get rest (Lit ''blueprints'') in
      after (GET (Lit ''blueprints''))
        (if status_code response \<noteq> 200 then ([], Inr (Fail_json (Bad_status (info response))))
         else
           (let resources = json response in
            if \<not> is_dict resources then ([], Inr (Fail_json Not_a_dictionary))
            else element Build_blueprint resources ps rest)))"

fun core :: "plugin \<Rightarrow> params \<Rightarrow> transport \<Rightarrow> run" where
  "core Resources = resources_core"
| "core Design = design_core"
| "core Blueprint = blueprint_core"

text \<open>
  \<open>main\<close>: run \<open>core\<close>; an exception that escapes it becomes a \<open>fail_json\<close> with the
  exception's text. The result is the requests made and how the process ended.
\<close>

definition main :: "plugin \<Rightarrow> params \<Rightarrow> transport \<Rightarrow> call list \<times> exit" where
  "main m ps rest =
     (case core m ps rest of
        (calls, Inl e) \<Rightarrow> (calls, Fail_json (Exception e))
      | (calls, Inr x) \<Rightarrow> (calls, x))"

section \<open>Vocabulary for the statements\<close>

text \<open>Which module holds an element function, and the \<open>type\<close> argument that selects it.\<close>

fun plugin_of :: "kind \<Rightarrow> plugin" where
  "plugin_of Rack_types = Design"
| "plugin_of Interface_maps = Design"
| "plugin_of Logical_device = Design"
| "plugin_of Templates = Design"
| "plugin_of Build_blueprint = Blueprint"
| "plugin_of _ = Resources"

fun type_name :: "kind \<Rightarrow> string" where
  "type_name External_routers = ''external-routers''"
| "type_name Ipv4_pool = ''ip-pools''"
| "type_name Ipv6_pool = ''ipv6-pools''"
| "type_name Asn_pool = ''asn-pools''"
| "type_name Vlan_pool = ''vlan-pools''"
| "type_name Vni_pool = ''vni-pools''"
| "type_name Rack_types = ''rack-types''"
| "type_name Interface_maps = ''interface-maps''"
| "type_name Logical_device = ''logical-devices''"
| "type_name Templates = ''templates''"
| "type_name Build_blueprint = ''blueprints''"

text \<open>The task's arguments send \<open>core\<close> to the function \<open>k\<close>; the blueprint module has only one.\<close>

fun selected :: "kind \<Rightarrow> params \<Rightarrow> bool" where
  "selected Build_blueprint ps = True"
| "selected k ps = (map_of ps ''type'' = Some (JStr (type_name k)))"

text \<open>The path \<open>core\<close> fetches then, and the response to that fetch.\<close>

fun fetch_path :: "kind \<Rightarrow> path" where
  "fetch_path Build_blueprint = Lit ''blueprints''"
| "fetch_path Rack_types = Sub ''design'' (JStr ''rack-types'')"
| "fetch_path Interface_maps = Sub ''design'' (JStr ''interface-maps'')"
| "fetch_path Logical_device = Sub ''design'' (JStr ''logical-devices'')"
| "fetch_path Templates = Sub ''design'' (JStr ''templates'')"
| "fetch_path k = Sub ''resources'' (JStr (type_name k))"

definition fetched :: "kind \<Rightarrow> transport \<Rightarrow> response" where
  "fetched k rest = rest_get rest (fetch_path k)"

text \<open>
  The dictionary the loop leaves behind after an entry with identity \<open>v\<close> and id \<open>i\<close>
  matched; \<open>fresh k\<close> is what it leaves when none did.
\<close>

fun found :: "kind \<Rightarrow> json \<Rightarrow> json \<Rightarrow> (string \<times> json) list" where
  "found Rack_types v i = [(''id'', i), (''provisioned'', JBool True)]"
| "found Interface_maps v i = [(''id'', i), (''label'', v), (''provisioned'', JBool True)]"
| "found Build_blueprint v i = [(''id'', i), (''label'', v), (''provisioned'', JBool True)]"
| "found k v i = [(''display_name'', v), (''id'', i), (''provisioned'', JBool True)]"

definition settled :: "kind \<Rightarrow> (string \<times> json) list \<Rightarrow> bool" where
  "settled k d = (d = fresh k \<or> (\<exists>v i. d = found k v i))"

text \<open>What \<open>main\<close> makes of an element function's run, with the fetch put in front.\<close>

definition finish :: "call \<Rightarrow> run \<Rightarrow> call list \<times> exit" where
  "finish c r =
     (case snd r of
        Inl e \<Rightarrow> (c # fst r, Fail_json (Exception e))
      | Inr x \<Rightarrow> (c # fst r, x))"

section \<open>Sample tasks and a stub transport\<close>

text \<open>
  A transport that answers every fetch with status 200 and the given body, and every POST
  and DELETE with the given status and body.
\<close>

definition stub :: "json \<Rightarrow> int \<Rightarrow> json \<Rightarrow> transport" where
  "stub body status answer =
     \<lparr>rest_get = (\<lambda>p. \<lparr>status_code = 200, json = body, info = JNull\<rparr>),
      rest_post = (\<lambda>p data. \<lparr>status_code = status, json = answer, info = JNull\<rparr>),
      rest_delete = (\<lambda>p. \<lparr>status_code = status, json = answer, info = JNull\<rparr>)\<rparr>"

definition snapshot :: "json list \<Rightarrow> json" where
  "snapshot es = JDict [(''items'', JList es)]"

definition pool_entry :: "string \<Rightarrow> string \<Rightarrow> json" where
  "pool_entry i n =
     JDict [(''id'', JStr i), (''display_name'', JStr n),
            (''subnets'', JList [JDict [(''network'', JStr ''10.0.0.0/8'')]])]"

definition pool_task :: "json \<Rightarrow> json \<Rightarrow> string \<Rightarrow> params" where
  "pool_task subnets tags state =
     [(''type'', JStr ''ip-pools''), (''display_name'', JStr ''cicd_test''),
      (''subnets'', subnets), (''tags'', tags), (''state'', JStr state)]"

definition interface_map_task :: "json \<Rightarrow> string \<Rightarrow> params" where
  "interface_map_task l state =
     [(''type'', JStr ''interface-maps''), (''label'', l), (''device_profile_id'', JStr ''dp1''),
      (''logical_device_id'', JStr ''ld1''), (''interfaces'', JList []), (''state'', JStr state)]"

definition blueprint_task :: "string \<Rightarrow> string \<Rightarrow> params" where
  "blueprint_task l state =
     [(''label'', JStr l), (''design'', JStr ''two_stage_l3clos''),
      (''init_type'', JStr ''template_reference''), (''template_id'', JStr ''t1''),
      (''state'', JStr state)]"

definition template_task :: "json \<Rightarrow> string \<Rightarrow> params" where
  "template_task t state =
     [(''type'', JStr ''templates''), (''design_template'', t), (''state'', JStr state)]"

section \<open>From \<open>main\<close> to the element function\<close>

text \<open>
  The fetch comes first. A status other than 200 and a body that is not a dictionary end
  the run there; otherwise the selected element function takes over.
\<close>

lemma path_str_fetch: "path_str (fetch_path k) = Some (collection k)"
  by (cases k) simp_all

lemma main_bad_status:
  assumes "selected k ps" and "status_code (fetched k rest) \<noteq> 200"
  shows "main (plugin_of k) ps rest = ([GET (fetch_path k)], Fail_json (Bad_status (info (fetched k rest))))"
  using assms
  by (cases k) (simp_all add: main_def resources_core_def design_core_def blueprint_core_def
      param_def after_def fetched_def Let_def)

lemma main_not_dict:
  assumes "selected k ps" and "status_code (fetched k rest) = 200" and "\<not> is_dict (json (fetched k rest))"
  shows "main (plugin_of k) ps rest = ([GET (fetch_path k)], Fail_json Not_a_dictionary)"
  using assms
  by (cases k) (simp_all add: main_def resources_core_def design_core_def blueprint_core_def
      param_def after_def fetched_def Let_def element_def)

lemma main_element:
  assumes "selected k ps" and "status_code (fetched k rest) = 200" and "is_dict (json (fetched k rest))"
  shows "main (plugin_of k) ps rest = finish (GET (fetch_path k)) (element k (json (fetched k rest)) ps rest)"
  using assms
  by (cases k) (simp_all add: main_def resources_core_def design_core_def blueprint_core_def
      param_def after_def fetched_def Let_def finish_def split: prod.splits sum.splits)

section \<open>The loop over the fetched entries\<close>

text \<open>
  The dictionary that the loop carries is always \<open>fresh k\<close> or \<open>found k v i\<close> for the
  entry that matched last; entries after the last match leave it alone.
\<close>

lemma fresh_provisioned: "map_of (fresh k) ''provisioned'' = Some (JBool False)"
  by (cases k) simp_all

lemma found_provisioned: "map_of (found k v i) ''provisioned'' = Some (JBool True)"
  by (cases k) simp_all

lemma found_id: "map_of (found k v i) ''id'' = Some i"
  by (cases k) simp_all

lemma remember_fresh:
  assumes "py_getitem each (key_field k) = Inr v" and "py_getitem each ''id'' = Inr i"
  shows "remember k each (fresh k) = Inr (found k v i)"
  using assms by (cases k) simp_all

lemma remember_found:
  assumes "py_getitem each (key_field k) = Inr v" and "py_getitem each ''id'' = Inr i"
  shows "remember k each (found k v' i') = Inr (found k v i)"
  using assms by (cases k) simp_all

lemma remember_no_id:
  assumes "py_getitem each ''id'' = Inl e" and "py_getitem each (key_field k) = Inr v"
  shows "remember k each d = Inl e"
  using assms by (cases k) simp_all

lemma is_match_field:
  "is_match k ps each = Inr b \<Longrightarrow> \<exists>v. py_getitem each (key_field k) = Inr v"
  by (auto simp: is_match_def split: sum.splits)

lemma remember_settled:
  assumes "settled k d" and "is_match k ps each = Inr True" and "remember k each d = Inr d'"
  shows "\<exists>v i. py_getitem each (key_field k) = Inr v \<and> py_getitem each ''id'' = Inr i \<and> d' = found k v i"
proof -
  from assms(2) obtain v where v: "py_getitem each (key_field k) = Inr v"
    using is_match_field by blast
  show ?thesis
  proof (cases "py_getitem each ''id''")
    case (Inl e)
    with v assms(3) show ?thesis by (simp add: remember_no_id)
  next
    case (Inr i)
    with v assms(1,3) show ?thesis
      by (auto simp: settled_def remember_fresh remember_found)
  qed
qed

lemma scan_append:
  "scan k ps (xs @ ys) d = (case scan k ps xs d of Inl e \<Rightarrow> Inl e | Inr d' \<Rightarrow> scan k ps ys d')"
  by (induction xs arbitrary: d) (auto split: sum.splits bool.splits)

lemma scan_settled:
  "settled k d \<Longrightarrow> scan k ps es d = Inr d' \<Longrightarrow> settled k d'"
proof (induction es arbitrary: d)
  case Nil
  then show ?case by simp
next
  case (Cons each es)
  show ?case
  proof (cases "is_match k ps each")
    case (Inl e)
    with Cons.prems show ?thesis by simp
  next
    case (Inr b)
    show ?thesis
    proof (cases b)
      case True
      with Inr Cons.prems obtain d1 where d1: "remember k each d = Inr d1" "scan k ps es d1 = Inr d'"
        by (auto split: sum.splits)
      from remember_settled [OF Cons.prems(1) _ d1(1)] Inr True have "settled k d1"
        by (auto simp: settled_def)
      with d1 Cons.IH show ?thesis by blast
    next
      case False
      with Inr Cons.prems Cons.IH show ?thesis by simp
    qed
  qed
qed

lemma scan_no_match:
  "\<forall>x\<in>set es. is_match k ps x \<noteq> Inr True \<Longrightarrow> scan k ps es d = Inr d' \<Longrightarrow> d' = d"
  by (induction es arbitrary: d) (auto split: sum.splits bool.splits)

lemma scan_all_false:
  "\<forall>x\<in>set es. is_match k ps x = Inr False \<Longrightarrow> scan k ps es d = Inr d"
  by (induction es arbitrary: d) auto

lemma scan_last_match:
  assumes "scan k ps (pre @ each # post) (fresh k) = Inr d"
    and "is_match k ps each = Inr True"
    and "\<forall>x\<in>set post. is_match k ps x \<noteq> Inr True"
  shows "\<exists>v i. py_getitem each (key_field k) = Inr v \<and> py_getitem each ''id'' = Inr i \<and> d = found k v i"
proof -
  from assms(1) obtain d0 where d0: "scan k ps pre (fresh k) = Inr d0" "scan k ps (each # post) d0 = Inr d"
    by (auto simp: scan_append split: sum.splits)
  have s0: "settled k d0" using scan_settled [OF _ d0(1)] by (simp add: settled_def)
  from d0(2) assms(2) obtain d1 where d1: "remember k each d0 = Inr d1" "scan k ps post d1 = Inr d"
    by (auto split: sum.splits)
  from scan_no_match [OF assms(3) d1(2)] have "d = d1" .
  with remember_settled [OF s0 assms(2) d1(1)] show ?thesis by simp
qed

lemma scan_missing_field:
  assumes "scan k ps pre d = Inr d0" and "py_getitem each (key_field k) = Inl e"
  shows "scan k ps (pre @ each # post) d = Inl e"
  using assms by (simp add: scan_append is_match_def)

lemma is_match_eq:
  "py_getitem each (key_field k) = Inr u \<Longrightarrow> declared k ps = Inr w
    \<Longrightarrow> is_match k ps each = Inr (py_eq u w)"
  by (simp add: is_match_def)

lemma remember_total:
  assumes "settled k d" and "py_getitem each (key_field k) = Inr u"
    and "py_getitem each ''id'' = Inr j"
  shows "remember k each d = Inr (found k u j)"
  using assms by (auto simp: settled_def remember_fresh remember_found)

lemma scan_total:
  assumes "declared k ps = Inr w" and "settled k d"
    and "\<forall>x\<in>set es. \<exists>u. py_getitem x (key_field k) = Inr u
           \<and> (py_eq u w \<longrightarrow> (\<exists>j. py_getitem x ''id'' = Inr j))"
  shows "\<exists>d'. scan k ps es d = Inr d' \<and> settled k d'"
  using assms(2,3)
proof (induction es arbitrary: d)
  case Nil
  then show ?case by simp
next
  case (Cons each es)
  from Cons.prems(2) obtain u where u: "py_getitem each (key_field k) = Inr u"
    and id: "py_eq u w \<longrightarrow> (\<exists>j. py_getitem each ''id'' = Inr j)"
    by auto
  have m: "is_match k ps each = Inr (py_eq u w)"
    using u assms(1) by (rule is_match_eq)
  have rest: "\<forall>x\<in>set es. \<exists>u. py_getitem x (key_field k) = Inr u
           \<and> (py_eq u w \<longrightarrow> (\<exists>j. py_getitem x ''id'' = Inr j))"
    using Cons.prems(2) by simp
  show ?case
  proof (cases "py_eq u w")
    case True
    with id obtain j where j: "py_getitem each ''id'' = Inr j" by blast
    have r: "remember k each d = Inr (found k u j)"
      using Cons.prems(1) u j by (rule remember_total)
    have "settled k (found k u j)" by (auto simp: settled_def)
    from Cons.IH [OF this rest] m True r show ?thesis by simp
  next
    case False
    with Cons.IH [OF Cons.prems(1) rest] m show ?thesis by simp
  qed
qed

lemma scan_others:
  assumes "declared k ps = Inr w"
    and "\<forall>x\<in>set es. \<exists>u. py_getitem x (key_field k) = Inr u \<and> \<not> py_eq u w"
  shows "scan k ps es d = Inr d"
proof -
  have "\<forall>x\<in>set es. is_match k ps x = Inr False"
    using assms by (auto simp: is_match_def)
  then show ?thesis by (rule scan_all_false)
qed

lemma scan_matched_entry:
  assumes "declared k ps = Inr w"
    and "\<forall>x\<in>set pre. \<exists>u. py_getitem x (key_field k) = Inr u
           \<and> (py_eq u w \<longrightarrow> (\<exists>j. py_getitem x ''id'' = Inr j))"
    and "py_getitem each (key_field k) = Inr v" and "py_eq v w"
    and "py_getitem each ''id'' = Inr i"
    and "\<forall>x\<in>set post. \<exists>u. py_getitem x (key_field k) = Inr u \<and> \<not> py_eq u w"
  shows "scan k ps (pre @ each # post) (fresh k) = Inr (found k v i)"
proof -
  have "settled k (fresh k)" by (simp add: settled_def)
  from scan_total [OF assms(1) this assms(2)] obtain d0
    where d0: "scan k ps pre (fresh k) = Inr d0" "settled k d0" by blast
  have m: "is_match k ps each = Inr True"
    using is_match_eq [OF assms(3) assms(1)] assms(4) by simp
  have r: "remember k each d0 = Inr (found k v i)"
    using d0(2) assms(3,5) by (rule remember_total)
  have "scan k ps post (found k v i) = Inr (found k v i)"
    using assms(1,6) by (rule scan_others)
  with d0(1) m r show ?thesis by (simp add: scan_append)
qed

lemma declared_none_no_match:
  assumes "declared k ps = Inr JNull"
    and "\<forall>x\<in>set es. \<exists>kv s. x = JDict kv \<and> map_of kv (key_field k) = Some (JStr s)"
  shows "scan k ps es d = Inr d"
proof -
  have "\<forall>x\<in>set es. is_match k ps x = Inr False"
    using assms by (auto simp: is_match_def)
  then show ?thesis by (rule scan_all_false)
qed

lemma templates_without_template:
  assumes "param ps ''design_template'' = Inr JNull"
    and "map_of kv ''display_name'' = Some u"
  shows "scan Templates ps (JDict kv # es) d = Inl TypeError"
  using assms by (simp add: is_match_def)

section \<open>The four branches\<close>

text \<open>
  What \<open>main\<close> returns once the loop has gone through: a delete or a message when the
  state is \<open>absent\<close>, a create or the stored dictionary otherwise.
\<close>

lemma py_iter_fails: "py_iter items = Inl e \<Longrightarrow> e = TypeError"
  by (cases items) simp_all

lemma find_element_is_dict: "find_element k ps resources = Inr d \<Longrightarrow> is_dict resources"
  by (cases resources) (simp_all add: find_element_def)

lemma find_element_settled:
  assumes "find_element k ps resources = Inr d"
  shows "settled k d"
proof -
  from assms obtain es where "scan k ps es (fresh k) = Inr d"
    by (auto simp: find_element_def split: sum.splits)
  moreover have "settled k (fresh k)" by (simp add: settled_def)
  ultimately show ?thesis using scan_settled by blast
qed

lemma main_found:
  assumes "selected k ps" and "status_code (fetched k rest) = 200"
    and "find_element k ps (json (fetched k rest)) = Inr d"
    and "param ps ''state'' = Inr s"
  shows "main (plugin_of k) ps rest =
    finish (GET (fetch_path k))
      (if py_eq s (JStr ''absent'') then absent k d rest else present k d ps rest)"
proof -
  have "is_dict (json (fetched k rest))" using assms(3) by (rule find_element_is_dict)
  with assms show ?thesis by (simp add: main_element element_def)
qed

lemma main_raises:
  assumes "selected k ps" and "status_code (fetched k rest) = 200"
    and "is_dict (json (fetched k rest))"
    and "find_element k ps (json (fetched k rest)) = Inl e"
  shows "main (plugin_of k) ps rest = ([GET (fetch_path k)], Fail_json (Exception e))"
  using assms by (simp add: main_element element_def finish_def)

lemma main_delete:
  assumes "selected k ps" and "status_code (fetched k rest) = 200"
    and "find_element k ps (json (fetched k rest)) = Inr (found k v i)"
    and "param ps ''state'' = Inr (JStr ''absent'')"
  shows "main (plugin_of k) ps rest =
    ([GET (fetch_path k), DELETE (Sub (collection k) i)],
     Exit_json True (json (rest_delete rest (Sub (collection k) i))))"
  using assms
  by (simp add: main_found absent_def finish_def found_provisioned found_id)

lemma main_nothing_to_delete:
  assumes "selected k ps" and "status_code (fetched k rest) = 200"
    and "find_element k ps (json (fetched k rest)) = Inr (fresh k)"
    and "param ps ''state'' = Inr (JStr ''absent'')"
  shows "main (plugin_of k) ps rest =
    ([GET (fetch_path k)], Exit_json False (JStr (does_not_exist k)))"
  using assms
  by (simp add: main_found absent_def finish_def fresh_provisioned)

lemma main_already_there:
  assumes "selected k ps" and "status_code (fetched k rest) = 200"
    and "find_element k ps (json (fetched k rest)) = Inr (found k v i)"
    and "param ps ''state'' = Inr (JStr ''present'')"
  shows "main (plugin_of k) ps rest =
    ([GET (fetch_path k)], Exit_json False (JDict (found k v i)))"
  using assms
  by (simp add: main_found present_def finish_def found_provisioned)

lemma main_create:
  assumes "selected k ps" and "status_code (fetched k rest) = 200"
    and "find_element k ps (json (fetched k rest)) = Inr (fresh k)"
    and "param ps ''state'' = Inr (JStr ''present'')"
    and "create_data k ps = Inr data"
  shows "main (plugin_of k) ps rest =
    ([GET (fetch_path k), POST (Lit (collection k)) data],
     (if reads_id k then
        (case py_getitem (json (rest_post rest (Lit (collection k)) data)) ''id'' of
           Inl e \<Rightarrow> Fail_json (Exception e)
         | Inr i \<Rightarrow> Exit_json True (json (rest_post rest (Lit (collection k)) data)))
      else Exit_json True (json (rest_post rest (Lit (collection k)) data))))"
  using assms
  by (simp add: main_found present_def finish_def fresh_provisioned Let_def split: sum.splits)

lemma main_no_payload:
  assumes "selected k ps" and "status_code (fetched k rest) = 200"
    and "find_element k ps (json (fetched k rest)) = Inr (fresh k)"
    and "param ps ''state'' = Inr (JStr ''present'')"
    and "create_data k ps = Inl e"
  shows "main (plugin_of k) ps rest = ([GET (fetch_path k)], Fail_json (Exception e))"
  using assms
  by (simp add: main_found present_def finish_def fresh_provisioned)

lemma find_element_items:
  "map_of b ''items'' = Some (JList es) \<Longrightarrow> find_element k ps (JDict b) = scan k ps es (fresh k)"
  by (simp add: find_element_def)

lemma main_first_call:
  assumes "selected k ps"
  shows "\<exists>calls. fst (main (plugin_of k) ps rest) = GET (fetch_path k) # calls"
  using assms
  by (cases k) (simp_all add: main_def resources_core_def design_core_def blueprint_core_def
      param_def after_def Let_def split: prod.splits sum.splits)

section \<open>The claims\<close>

text \<open>The definitions that a run on a concrete task unfolds.\<close>

lemmas run_defs = main_def resources_core_def design_core_def blueprint_core_def param_def
  after_def element_def find_element_def is_match_def absent_def present_def ip_pool_data_def
  subnets_payload_def picked_def fetched_def stub_def pool_task_def pool_entry_def snapshot_def
  blueprint_task_def interface_map_task_def template_task_def Let_def

text \<open>
  Claim C1 says that every call with state \<open>present\<close> and no matching entry issues one
  create and ends with \<open>changed = true\<close> and the create response as data. Two IP pool
  tasks against an empty collection show otherwise. Without \<open>subnets\<close> the subnets loop
  raises before any POST is made. With subnets, and a create answered by a body that has
  no \<open>id\<close>, the POST is made and the read of \<open>response.json['id']\<close> then raises; the
  run ends in \<open>fail_json\<close>.
\<close>
theorem C1_counterexample:
  "find_element Ipv4_pool (pool_task JNull (JList []) ''present'') (snapshot []) = Inr (fresh Ipv4_pool)
   \<and> main Resources (pool_task JNull (JList []) ''present'')
        (stub (snapshot []) 201 (JDict [(''id'', JStr ''p1'')]))
      = ([GET (Sub ''resources'' (JStr ''ip-pools''))], Fail_json (Exception TypeError))
   \<and> main Resources (pool_task (JList [JStr ''100.1.1.0/24'']) (JList []) ''present'')
        (stub (snapshot []) 422 (JDict [(''errors'', JStr ''rejected'')]))
      = ([GET (Sub ''resources'' (JStr ''ip-pools'')),
          POST (Lit ''resources/ip-pools'')
            (JDict [(''display_name'', JStr ''cicd_test''),
                    (''subnets'', JList [JDict [(''network'', JStr ''100.1.1.0/24'')]]),
                    (''tags'', JList [])])],
         Fail_json (Exception (KeyError ''id'')))"
  by (simp add: run_defs)

text \<open>
  Claim C1, amended: for every element function, when the state is \<open>present\<close>, the loop
  found no matching entry and the function's payload could be built from the task's
  arguments, the run makes exactly the fetch and one POST to the function's collection path
  with that payload. When the create response has status 201 and, for the functions that
  read it, carries an \<open>id\<close>, the run ends with \<open>changed = true\<close> and the response body
  as data.
\<close>
theorem C1_create_once:
  assumes "selected k ps" and "status_code (fetched k rest) = 200"
    and "find_element k ps (json (fetched k rest)) = Inr (fresh k)"
    and "param ps ''state'' = Inr (JStr ''present'')"
    and "create_data k ps = Inr data"
  shows "fst (main (plugin_of k) ps rest) = [GET (fetch_path k), POST (Lit (collection k)) data]
    \<and> (status_code (rest_post rest (Lit (collection k)) data) = 201
        \<and> (reads_id k \<longrightarrow> (\<exists>i. py_getitem (json (rest_post rest (Lit (collection k)) data)) ''id'' = Inr i))
       \<longrightarrow> snd (main (plugin_of k) ps rest)
           = Exit_json True (json (rest_post rest (Lit (collection k)) data)))"
  using main_create [OF assms] by auto

text \<open>
  An IP pool with two subnets, against a collection that holds another pool: the subnets
  are wrapped one by one, in order.
\<close>
theorem C1_create_once_witness:
  "create_data Ipv4_pool (pool_task (JList [JStr ''10.0.0.0/24'', JStr ''10.0.1.0/24'']) (JList []) ''present'')
     = Inr (JDict [(''display_name'', JStr ''cicd_test''),
                   (''subnets'', JList [JDict [(''network'', JStr ''10.0.0.0/24'')],
                                        JDict [(''network'', JStr ''10.0.1.0/24'')]]),
                   (''tags'', JList [])])
   \<and> main Resources (pool_task (JList [JStr ''10.0.0.0/24'', JStr ''10.0.1.0/24'']) (JList []) ''present'')
        (stub (snapshot [pool_entry ''abc'' ''other'']) 201 (JDict [(''id'', JStr ''p1'')]))
      = ([GET (Sub ''resources'' (JStr ''ip-pools'')),
          POST (Lit ''resources/ip-pools'')
            (JDict [(''display_name'', JStr ''cicd_test''),
                    (''subnets'', JList [JDict [(''network'', JStr ''10.0.0.0/24'')],
                                         JDict [(''network'', JStr ''10.0.1.0/24'')]]),
                    (''tags'', JList [])])],
         Exit_json True (JDict [(''id'', JStr ''p1'')]))"
  using C1_create_once [of Ipv4_pool
      "pool_task (JList [JStr ''10.0.0.0/24'', JStr ''10.0.1.0/24'']) (JList []) ''present''"
      "stub (snapshot [pool_entry ''abc'' ''other'']) 201 (JDict [(''id'', JStr ''p1'')])"
      "JDict [(''display_name'', JStr ''cicd_test''),
                    (''subnets'', JList [JDict [(''network'', JStr ''10.0.0.0/24'')],
                                         JDict [(''network'', JStr ''10.0.1.0/24'')]]),
                    (''tags'', JList [])]"]
  by (simp add: run_defs prod_eq_iff)

text \<open>
  Claim C2: for every element function, when the state is \<open>absent\<close> and the fetched
  collection holds an entry \<open>each\<close> whose identity equals the declared one, with remote id
  \<open>i\<close>, and no later entry does (the entries all carry the identity field, and those
  before \<open>each\<close> that match carry an id), the run makes exactly the fetch and one DELETE
  to \<open>{collection}/{i}\<close>, the id of that entry, and ends with \<open>changed = true\<close> and the
  body of the delete response as data, whatever that response is.
\<close>
theorem C2_delete_on_match:
  assumes "selected k ps" and "status_code (fetched k rest) = 200"
    and "json (fetched k rest) = JDict b"
    and "map_of b ''items'' = Some (JList (pre @ each # post))"
    and "declared k ps = Inr w"
    and "\<forall>x\<in>set pre. \<exists>u. py_getitem x (key_field k) = Inr u
           \<and> (py_eq u w \<longrightarrow> (\<exists>j. py_getitem x ''id'' = Inr j))"
    and "py_getitem each (key_field k) = Inr v" and "py_eq v w"
    and "py_getitem each ''id'' = Inr i"
    and "\<forall>x\<in>set post. \<exists>u. py_getitem x (key_field k) = Inr u \<and> \<not> py_eq u w"
    and "param ps ''state'' = Inr (JStr ''absent'')"
  shows "main (plugin_of k) ps rest =
    ([GET (fetch_path k), DELETE (Sub (collection k) i)],
     Exit_json True (json (rest_delete rest (Sub (collection k) i))))"
proof -
  have "scan k ps (pre @ each # post) (fresh k) = Inr (found k v i)"
    using assms(5,6,7,8,9,10) by (rule scan_matched_entry)
  with assms(3,4) have "find_element k ps (json (fetched k rest)) = Inr (found k v i)"
    by (simp add: find_element_items)
  with assms(1,2) show ?thesis using assms(11) by (rule main_delete)
qed

text \<open>
  Three pools, the declared one in the middle: the delete goes to its id, not to a
  neighbour's.
\<close>
theorem C2_delete_on_match_witness:
  "main Resources (pool_task JNull JNull ''absent'')
        (stub (snapshot [pool_entry ''aaa'' ''first'', pool_entry ''abc'' ''cicd_test'',
                         pool_entry ''zzz'' ''other'']) 200 (JDict []))
      = ([GET (Sub ''resources'' (JStr ''ip-pools'')),
          DELETE (Sub ''resources/ip-pools'' (JStr ''abc''))],
         Exit_json True (JDict []))
   \<and> path_str (Sub ''resources/ip-pools'' (JStr ''abc'')) = Some ''resources/ip-pools/abc''"
  using C2_delete_on_match [of Ipv4_pool "pool_task JNull JNull ''absent''"
      "stub (snapshot [pool_entry ''aaa'' ''first'', pool_entry ''abc'' ''cicd_test'',
                         pool_entry ''zzz'' ''other'']) 200 (JDict [])"
      "[(''items'', JList [pool_entry ''aaa'' ''first'', pool_entry ''abc'' ''cicd_test'',
                         pool_entry ''zzz'' ''other''])]"
      "[pool_entry ''aaa'' ''first'']" "pool_entry ''abc'' ''cicd_test''"
      "[pool_entry ''zzz'' ''other'']" "JStr ''cicd_test''" "JStr ''cicd_test''" "JStr ''abc''"]
  by (simp add: fetched_def stub_def snapshot_def pool_task_def pool_entry_def param_def)

text \<open>
  Claim C3: in the two branches where nothing is to be done, absent with no match and
  present with a match, the run makes the fetch and no other request, and ends with
  \<open>changed = false\<close> through \<open>exit_json\<close>, never through \<open>fail_json\<close>. The entry's
  other attributes play no part: the statement holds for every fetched body and every task.
\<close>
theorem C3_no_op_branches:
  assumes "selected k ps" and "status_code (fetched k rest) = 200"
  shows "(find_element k ps (json (fetched k rest)) = Inr (fresh k)
          \<and> param ps ''state'' = Inr (JStr ''absent'')
          \<longrightarrow> main (plugin_of k) ps rest
              = ([GET (fetch_path k)], Exit_json False (JStr (does_not_exist k))))
       \<and> (find_element k ps (json (fetched k rest)) = Inr (found k v i)
          \<and> param ps ''state'' = Inr (JStr ''present'')
          \<longrightarrow> main (plugin_of k) ps rest
              = ([GET (fetch_path k)], Exit_json False (JDict (found k v i))))"
  using assms by (simp add: main_nothing_to_delete main_already_there)

text \<open>
  In the second run the pool found has another subnet than the one declared, and nothing
  is sent.
\<close>
theorem C3_no_op_branches_witness:
  "main Resources (pool_task (JList [JStr ''100.1.1.0/24'']) (JList []) ''absent'')
        (stub (snapshot [pool_entry ''abc'' ''other'']) 500 JNull)
      = ([GET (Sub ''resources'' (JStr ''ip-pools''))],
         Exit_json False (JStr ''IP Pool does not exist, exiting''))
   \<and> main Resources (pool_task (JList [JStr ''100.1.1.0/24'']) (JList []) ''present'')
        (stub (snapshot [pool_entry ''abc'' ''cicd_test'']) 500 JNull)
      = ([GET (Sub ''resources'' (JStr ''ip-pools''))],
         Exit_json False
           (JDict [(''display_name'', JStr ''cicd_test''), (''id'', JStr ''abc''),
                   (''provisioned'', JBool True)]))"
  using C3_no_op_branches [of Ipv4_pool "pool_task (JList [JStr ''100.1.1.0/24'']) (JList []) ''absent''"
      "stub (snapshot [pool_entry ''abc'' ''other'']) 500 JNull" "JStr ''x''" "JStr ''y''"]
    C3_no_op_branches [of Ipv4_pool "pool_task (JList [JStr ''100.1.1.0/24'']) (JList []) ''present''"
      "stub (snapshot [pool_entry ''abc'' ''cicd_test'']) 500 JNull" "JStr ''cicd_test''" "JStr ''abc''"]
  by (simp add: run_defs)

text \<open>
  Claim C4: when the loop goes through a collection in which \<open>each\<close> is the last entry
  that matches (any number of matching entries may come before it), the dictionary it
  leaves holds the identity and the id of \<open>each\<close>: a delete goes to that id, and a
  present task that changes nothing reports that dictionary.
\<close>
theorem C4_last_match_wins:
  assumes "selected k ps" and "status_code (fetched k rest) = 200"
    and "json (fetched k rest) = JDict b"
    and "map_of b ''items'' = Some (JList (pre @ each # post))"
    and "find_element k ps (JDict b) = Inr d"
    and "is_match k ps each = Inr True"
    and "\<forall>x\<in>set post. is_match k ps x \<noteq> Inr True"
  shows "\<exists>v i. py_getitem each (key_field k) = Inr v \<and> py_getitem each ''id'' = Inr i
           \<and> d = found k v i
           \<and> (param ps ''state'' = Inr (JStr ''absent'') \<longrightarrow>
                main (plugin_of k) ps rest =
                  ([GET (fetch_path k), DELETE (Sub (collection k) i)],
                   Exit_json True (json (rest_delete rest (Sub (collection k) i)))))
           \<and> (param ps ''state'' = Inr (JStr ''present'') \<longrightarrow>
                main (plugin_of k) ps rest =
                  ([GET (fetch_path k)], Exit_json False (JDict (found k v i))))"
proof -
  from assms(4,5) have "scan k ps (pre @ each # post) (fresh k) = Inr d"
    by (simp add: find_element_items)
  from scan_last_match [OF this assms(6,7)] obtain v i
    where vi: "py_getitem each (key_field k) = Inr v" "py_getitem each ''id'' = Inr i" "d = found k v i"
    by blast
  from assms(3,5) vi(3) have fe: "find_element k ps (json (fetched k rest)) = Inr (found k v i)"
    by simp
  have "param ps ''state'' = Inr (JStr ''absent'') \<longrightarrow>
          main (plugin_of k) ps rest =
            ([GET (fetch_path k), DELETE (Sub (collection k) i)],
             Exit_json True (json (rest_delete rest (Sub (collection k) i))))"
    using main_delete [OF assms(1,2) fe] by simp
  moreover have "param ps ''state'' = Inr (JStr ''present'') \<longrightarrow>
          main (plugin_of k) ps rest =
            ([GET (fetch_path k)], Exit_json False (JDict (found k v i)))"
    using main_already_there [OF assms(1,2) fe] by simp
  ultimately show ?thesis using vi by blast
qed

text \<open>Two pools with the declared name: the second one is deleted, and reported.\<close>
theorem C4_last_match_wins_witness:
  "main Resources (pool_task JNull JNull ''absent'')
        (stub (snapshot [pool_entry ''one'' ''cicd_test'', pool_entry ''two'' ''cicd_test'',
                         pool_entry ''three'' ''other'']) 200 JNull)
      = ([GET (Sub ''resources'' (JStr ''ip-pools'')),
          DELETE (Sub ''resources/ip-pools'' (JStr ''two''))],
         Exit_json True JNull)
   \<and> main Resources (pool_task JNull JNull ''present'')
        (stub (snapshot [pool_entry ''one'' ''cicd_test'', pool_entry ''two'' ''cicd_test'',
                         pool_entry ''three'' ''other'']) 200 JNull)
      = ([GET (Sub ''resources'' (JStr ''ip-pools''))],
         Exit_json False
           (JDict [(''display_name'', JStr ''cicd_test''), (''id'', JStr ''two''),
                   (''provisioned'', JBool True)]))"
  using C4_last_match_wins [of Ipv4_pool "pool_task JNull JNull ''absent''"
      "stub (snapshot [pool_entry ''one'' ''cicd_test'', pool_entry ''two'' ''cicd_test'',
                         pool_entry ''three'' ''other'']) 200 JNull"
      "[(''items'', JList [pool_entry ''one'' ''cicd_test'', pool_entry ''two'' ''cicd_test'',
                         pool_entry ''three'' ''other''])]"
      "[pool_entry ''one'' ''cicd_test'']" "pool_entry ''two'' ''cicd_test''"
      "[pool_entry ''three'' ''other'']"
      "found Ipv4_pool (JStr ''cicd_test'') (JStr ''two'')"]
  by (simp add: run_defs)

text \<open>
  Claim C5 says that the IP pool task with display name \<open>cicd_test\<close>, the subnet
  \<open>100.1.1.0/24\<close> and state \<open>present\<close>, against an empty collection, posts a payload
  whose tags are the empty list and ends with \<open>changed = true\<close>. The payload copies
  \<open>module.params['tags']\<close>: a task that declares no tags posts \<open>None\<close> there. And when
  the create is answered by a body without \<open>id\<close>, the run ends in \<open>fail_json\<close>.
\<close>
theorem C5_counterexample:
  "main Resources (pool_task (JList [JStr ''100.1.1.0/24'']) JNull ''present'')
        (stub (snapshot []) 201 (JDict [(''id'', JStr ''p1'')]))
      = ([GET (Sub ''resources'' (JStr ''ip-pools'')),
          POST (Lit ''resources/ip-pools'')
            (JDict [(''display_name'', JStr ''cicd_test''),
                    (''subnets'', JList [JDict [(''network'', JStr ''100.1.1.0/24'')]]),
                    (''tags'', JNull)])],
         Exit_json True (JDict [(''id'', JStr ''p1'')]))
   \<and> main Resources (pool_task (JList [JStr ''100.1.1.0/24'']) (JList []) ''present'')
        (stub (snapshot []) 201 (JDict []))
      = ([GET (Sub ''resources'' (JStr ''ip-pools'')),
          POST (Lit ''resources/ip-pools'')
            (JDict [(''display_name'', JStr ''cicd_test''),
                    (''subnets'', JList [JDict [(''network'', JStr ''100.1.1.0/24'')]]),
                    (''tags'', JList [])])],
         Fail_json (Exception (KeyError ''id'')))"
  by (simp add: run_defs)

text \<open>
  Claim C5, amended: an IP pool task with display name \<open>cicd_test\<close>, the one subnet
  \<open>100.1.1.0/24\<close>, tags declared as the empty list and state \<open>present\<close>, against a
  collection whose \<open>items\<close> is the empty list, makes exactly the fetch and one POST to
  \<open>resources/ip-pools\<close> whose payload is the display name, the subnet wrapped as
  \<open>{network: ...}\<close> and the empty tags. When the create response has status 201 and
  carries an \<open>id\<close>, the run ends with \<open>changed = true\<close> and the response body as data.
\<close>
theorem C5_ip_pool_scenario:
  assumes "map_of ps ''type'' = Some (JStr ''ip-pools'')"
    and "map_of ps ''display_name'' = Some (JStr ''cicd_test'')"
    and "map_of ps ''subnets'' = Some (JList [JStr ''100.1.1.0/24''])"
    and "map_of ps ''tags'' = Some (JList [])"
    and "map_of ps ''state'' = Some (JStr ''present'')"
    and "status_code (rest_get rest (Sub ''resources'' (JStr ''ip-pools''))) = 200"
    and "json (rest_get rest (Sub ''resources'' (JStr ''ip-pools''))) = JDict b"
    and "map_of b ''items'' = Some (JList [])"
    and "data = JDict [(''display_name'', JStr ''cicd_test''),
                       (''subnets'', JList [JDict [(''network'', JStr ''100.1.1.0/24'')]]),
                       (''tags'', JList [])]"
  shows "fst (main Resources ps rest) =
      [GET (Sub ''resources'' (JStr ''ip-pools'')), POST (Lit ''resources/ip-pools'') data]
    \<and> (status_code (rest_post rest (Lit ''resources/ip-pools'') data) = 201
        \<and> (\<exists>i. py_getitem (json (rest_post rest (Lit ''resources/ip-pools'') data)) ''id'' = Inr i)
       \<longrightarrow> snd (main Resources ps rest)
           = Exit_json True (json (rest_post rest (Lit ''resources/ip-pools'') data)))"
  using assms
  by (auto simp: main_def resources_core_def param_def after_def element_def find_element_def
      present_def ip_pool_data_def subnets_payload_def Let_def split: sum.splits)

theorem C5_ip_pool_scenario_witness:
  "main Resources (pool_task (JList [JStr ''100.1.1.0/24'']) (JList []) ''present'')
        (stub (snapshot []) 201 (JDict [(''id'', JStr ''p1'')]))
      = ([GET (Sub ''resources'' (JStr ''ip-pools'')),
          POST (Lit ''resources/ip-pools'')
            (JDict [(''display_name'', JStr ''cicd_test''),
                    (''subnets'', JList [JDict [(''network'', JStr ''100.1.1.0/24'')]]),
                    (''tags'', JList [])])],
         Exit_json True (JDict [(''id'', JStr ''p1'')]))"
  using C5_ip_pool_scenario [of "pool_task (JList [JStr ''100.1.1.0/24'']) (JList []) ''present''"
      "stub (snapshot []) 201 (JDict [(''id'', JStr ''p1'')])" "[(''items'', JList [])]"
      "JDict [(''display_name'', JStr ''cicd_test''),
                    (''subnets'', JList [JDict [(''network'', JStr ''100.1.1.0/24'')]]),
                    (''tags'', JList [])]"]
  by (simp add: stub_def pool_task_def snapshot_def prod_eq_iff)

text \<open>
  Claim C6 says that every fetched body other than a dictionary whose \<open>items\<close> is a
  sequence ends the run with the schema failure and without a create or delete. A body
  whose \<open>items\<close> is an empty dictionary passes the test \<open>isinstance(resources, dict)\<close>,
  the loop over it has nothing to visit, and the pool is created.
\<close>
theorem C6_counterexample:
  "main Resources (pool_task (JList [JStr ''100.1.1.0/24'']) (JList []) ''present'')
        (stub (JDict [(''items'', JDict [])]) 201 (JDict [(''id'', JStr ''p1'')]))
      = ([GET (Sub ''resources'' (JStr ''ip-pools'')),
          POST (Lit ''resources/ip-pools'')
            (JDict [(''display_name'', JStr ''cicd_test''),
                    (''subnets'', JList [JDict [(''network'', JStr ''100.1.1.0/24'')]]),
                    (''tags'', JList [])])],
         Exit_json True (JDict [(''id'', JStr ''p1'')]))"
  by (simp add: run_defs)

text \<open>
  Claim C6, amended: a fetched body that is not a dictionary (a list, a string, a number,
  \<open>None\<close>) ends the run with the failure "not in a dictionary format" right after the
  fetch. A dictionary without \<open>items\<close>, and one whose \<open>items\<close> cannot be iterated, end
  it with the \<open>KeyError\<close> or \<open>TypeError\<close> that \<open>main\<close> turns into a failure. In all
  three cases no create and no delete is made.
\<close>
theorem C6_body_shape:
  assumes "selected k ps" and "status_code (fetched k rest) = 200"
  shows "(\<not> is_dict (json (fetched k rest)) \<longrightarrow>
            main (plugin_of k) ps rest = ([GET (fetch_path k)], Fail_json Not_a_dictionary))
       \<and> (\<forall>b. json (fetched k rest) = JDict b \<and> map_of b ''items'' = None \<longrightarrow>
            main (plugin_of k) ps rest
              = ([GET (fetch_path k)], Fail_json (Exception (KeyError ''items''))))
       \<and> (\<forall>b items e. json (fetched k rest) = JDict b \<and> map_of b ''items'' = Some items
             \<and> py_iter items = Inl e \<longrightarrow>
            main (plugin_of k) ps rest = ([GET (fetch_path k)], Fail_json (Exception TypeError)))"
proof (intro conjI allI impI)
  assume "\<not> is_dict (json (fetched k rest))"
  with assms show "main (plugin_of k) ps rest = ([GET (fetch_path k)], Fail_json Not_a_dictionary)"
    by (rule main_not_dict)
next
  fix b
  assume b: "json (fetched k rest) = JDict b \<and> map_of b ''items'' = None"
  then have "find_element k ps (json (fetched k rest)) = Inl (KeyError ''items'')"
    by (simp add: find_element_def)
  with assms b show "main (plugin_of k) ps rest
      = ([GET (fetch_path k)], Fail_json (Exception (KeyError ''items'')))"
    by (simp add: main_raises)
next
  fix b items e
  assume b: "json (fetched k rest) = JDict b \<and> map_of b ''items'' = Some items
     \<and> py_iter items = Inl e"
  then have "find_element k ps (json (fetched k rest)) = Inl TypeError"
    using py_iter_fails [of items e] by (simp add: find_element_def)
  with assms b show "main (plugin_of k) ps rest
      = ([GET (fetch_path k)], Fail_json (Exception TypeError))"
    by (simp add: main_raises)
qed

theorem C6_body_shape_witness:
  "main Resources (pool_task (JList [JStr ''100.1.1.0/24'']) (JList []) ''present'')
        (stub (JList [pool_entry ''abc'' ''cicd_test'']) 201 (JDict [(''id'', JStr ''p1'')]))
      = ([GET (Sub ''resources'' (JStr ''ip-pools''))], Fail_json Not_a_dictionary)
   \<and> main Design (interface_map_task (JStr ''im1'') ''absent'') (stub (JInt 7) 200 JNull)
      = ([GET (Sub ''design'' (JStr ''interface-maps''))], Fail_json Not_a_dictionary)
   \<and> main Blueprint (blueprint_task ''bp1'' ''present'') (stub (JDict [(''count'', JInt 0)]) 201 JNull)
      = ([GET (Lit ''blueprints'')], Fail_json (Exception (KeyError ''items'')))
   \<and> main Blueprint (blueprint_task ''bp1'' ''present'') (stub (JDict [(''items'', JNull)]) 201 JNull)
      = ([GET (Lit ''blueprints'')], Fail_json (Exception TypeError))"
  using C6_body_shape [of Ipv4_pool "pool_task (JList [JStr ''100.1.1.0/24'']) (JList []) ''present''"
      "stub (JList [pool_entry ''abc'' ''cicd_test'']) 201 (JDict [(''id'', JStr ''p1'')])"]
    C6_body_shape [of Interface_maps "interface_map_task (JStr ''im1'') ''absent''"
      "stub (JInt 7) 200 JNull"]
    C6_body_shape [of Build_blueprint "blueprint_task ''bp1'' ''present''"
      "stub (JDict [(''count'', JInt 0)]) 201 JNull"]
    C6_body_shape [of Build_blueprint "blueprint_task ''bp1'' ''present''"
      "stub (JDict [(''items'', JNull)]) 201 JNull"]
  by (simp add: fetched_def stub_def pool_task_def interface_map_task_def blueprint_task_def)

text \<open>
  Claim C7 says that a create or delete answered with a failure status is reported as a
  failure. The element functions read \<open>status_code\<close> of the fetch only. Here a delete
  answered with status 500 and a blueprint create answered with status 422 both end with
  \<open>changed = true\<close> and the error body as data.
\<close>
theorem C7_failed_mutation_reported_changed:
  "status_code (rest_delete (stub (snapshot [pool_entry ''abc'' ''cicd_test'']) 500
        (JDict [(''errors'', JStr ''server error'')])) (Sub ''resources/ip-pools'' (JStr ''abc''))) = 500
   \<and> main Resources (pool_task JNull JNull ''absent'')
        (stub (snapshot [pool_entry ''abc'' ''cicd_test'']) 500
           (JDict [(''errors'', JStr ''server error'')]))
      = ([GET (Sub ''resources'' (JStr ''ip-pools'')),
          DELETE (Sub ''resources/ip-pools'' (JStr ''abc''))],
         Exit_json True (JDict [(''errors'', JStr ''server error'')]))
   \<and> main Blueprint (blueprint_task ''bp1'' ''present'')
        (stub (snapshot []) 422 (JDict [(''errors'', JStr ''rejected'')]))
      = ([GET (Lit ''blueprints''),
          POST (Lit ''blueprints'')
            (JDict [(''design'', JStr ''two_stage_l3clos''),
                    (''init_type'', JStr ''template_reference''),
                    (''template_id'', JStr ''t1''), (''label'', JStr ''bp1'')])],
         Exit_json True (JDict [(''errors'', JStr ''rejected'')]))"
  by (simp add: run_defs)

text \<open>
  Claim C8 says that a task without a value for its identity key fails before any request.
  An interface map task whose \<open>label\<close> is \<open>None\<close> fetches the collection, finds nothing
  that equals \<open>None\<close>, and posts a new interface map with a null label.
\<close>
theorem C8_counterexample:
  "declared Interface_maps (interface_map_task JNull ''present'') = Inr JNull
   \<and> main Design (interface_map_task JNull ''present'')
        (stub (snapshot []) 201 (JDict [(''id'', JStr ''im1'')]))
      = ([GET (Sub ''design'' (JStr ''interface-maps'')),
          POST (Lit ''design/interface-maps'')
            (JDict [(''device_profile_id'', JStr ''dp1''), (''logical_device_id'', JStr ''ld1''),
                    (''interfaces'', JList []), (''label'', JNull)])],
         Exit_json True (JDict [(''id'', JStr ''im1'')]))"
  by (simp add: run_defs)

text \<open>
  Claim C8, amended: a task without a value for its identity key is not rejected before
  the fetch; the fetch is the first request of every run. When the declared identity is
  \<open>None\<close>, it is compared with each entry: against entries whose identity is a string
  nothing matches, so an \<open>absent\<close> task ends with \<open>changed = false\<close> and the not-found
  message, and a \<open>present\<close> task whose payload can be built posts it. For templates
  without \<open>design_template\<close>, the run ends after the fetch in a failure with the
  \<open>TypeError\<close>, and without a create or delete, as soon as the loop reads a first entry
  that carries \<open>display_name\<close>, or, for a \<open>present\<close> task against an empty collection,
  when the payload is built.
\<close>
theorem C8_fetch_comes_first:
  assumes "selected k ps"
  shows "(\<exists>calls. fst (main (plugin_of k) ps rest) = GET (fetch_path k) # calls)
    \<and> (declared k ps = Inr JNull \<and> status_code (fetched k rest) = 200
        \<and> json (fetched k rest) = JDict b \<and> map_of b ''items'' = Some (JList es)
        \<and> (\<forall>x\<in>set es. \<exists>kv s. x = JDict kv \<and> map_of kv (key_field k) = Some (JStr s))
       \<longrightarrow> (param ps ''state'' = Inr (JStr ''absent'') \<longrightarrow>
              main (plugin_of k) ps rest
                = ([GET (fetch_path k)], Exit_json False (JStr (does_not_exist k))))
         \<and> (param ps ''state'' = Inr (JStr ''present'') \<and> create_data k ps = Inr data \<longrightarrow>
              fst (main (plugin_of k) ps rest)
                = [GET (fetch_path k), POST (Lit (collection k)) data]))
    \<and> (k = Templates \<and> param ps ''design_template'' = Inr JNull
        \<and> status_code (fetched k rest) = 200 \<and> json (fetched k rest) = JDict b
        \<and> ((\<exists>kv u more. map_of b ''items'' = Some (JList (JDict kv # more))
                \<and> map_of kv ''display_name'' = Some u)
            \<or> (map_of b ''items'' = Some (JList []) \<and> param ps ''state'' = Inr (JStr ''present'')))
       \<longrightarrow> main (plugin_of k) ps rest
            = ([GET (fetch_path k)], Fail_json (Exception TypeError)))"
proof (intro conjI impI)
  show "\<exists>calls. fst (main (plugin_of k) ps rest) = GET (fetch_path k) # calls"
    using assms by (rule main_first_call)
next
  assume h: "declared k ps = Inr JNull \<and> status_code (fetched k rest) = 200
        \<and> json (fetched k rest) = JDict b \<and> map_of b ''items'' = Some (JList es)
        \<and> (\<forall>x\<in>set es. \<exists>kv s. x = JDict kv \<and> map_of kv (key_field k) = Some (JStr s))"
  then have fe: "find_element k ps (json (fetched k rest)) = Inr (fresh k)"
    by (simp add: find_element_items declared_none_no_match)
  {
    assume "param ps ''state'' = Inr (JStr ''absent'')"
    with assms h fe show "main (plugin_of k) ps rest
        = ([GET (fetch_path k)], Exit_json False (JStr (does_not_exist k)))"
      by (simp add: main_nothing_to_delete)
  next
    assume "param ps ''state'' = Inr (JStr ''present'') \<and> create_data k ps = Inr data"
    with assms h fe show "fst (main (plugin_of k) ps rest)
        = [GET (fetch_path k), POST (Lit (collection k)) data]"
      by (simp add: main_create)
  }
next
  assume h: "k = Templates \<and> param ps ''design_template'' = Inr JNull
        \<and> status_code (fetched k rest) = 200 \<and> json (fetched k rest) = JDict b
        \<and> ((\<exists>kv u more. map_of b ''items'' = Some (JList (JDict kv # more))
                \<and> map_of kv ''display_name'' = Some u)
            \<or> (map_of b ''items'' = Some (JList []) \<and> param ps ''state'' = Inr (JStr ''present'')))"
  then have k: "k = Templates" and t: "param ps ''design_template'' = Inr JNull"
    and s: "status_code (fetched k rest) = 200" and j: "json (fetched k rest) = JDict b"
    by blast+
  from h consider
      (entry) kv u more where "map_of b ''items'' = Some (JList (JDict kv # more))"
        "map_of kv ''display_name'' = Some u"
    | (empty) "map_of b ''items'' = Some (JList [])" "param ps ''state'' = Inr (JStr ''present'')"
    by blast
  then show "main (plugin_of k) ps rest = ([GET (fetch_path k)], Fail_json (Exception TypeError))"
  proof cases
    case entry
    have "scan Templates ps (JDict kv # more) (fresh Templates) = Inl TypeError"
      using t entry(2) by (rule templates_without_template)
    then have "find_element k ps (json (fetched k rest)) = Inl TypeError"
      using k j entry(1) by (simp add: find_element_items del: scan.simps fresh.simps)
    with assms s j show ?thesis by (simp add: main_raises)
  next
    case empty
    then have fe: "find_element k ps (json (fetched k rest)) = Inr (fresh k)"
      using j by (simp add: find_element_items)
    have "create_data k ps = Inl TypeError"
      using k t by (simp add: picked_def)
    with assms s fe empty(2) show ?thesis by (rule main_no_payload)
  qed
qed

theorem C8_fetch_comes_first_witness:
  "main Design (interface_map_task JNull ''absent'')
        (stub (snapshot [JDict [(''id'', JStr ''i1''), (''label'', JStr ''im1'')]]) 200 JNull)
      = ([GET (Sub ''design'' (JStr ''interface-maps''))],
         Exit_json False (JStr ''Interface Mapping does not exist, exiting''))
   \<and> fst (main Design (interface_map_task JNull ''present'')
        (stub (snapshot [JDict [(''id'', JStr ''i1''), (''label'', JStr ''im1'')]]) 201 JNull))
      = [GET (Sub ''design'' (JStr ''interface-maps'')),
         POST (Lit ''design/interface-maps'')
           (JDict [(''device_profile_id'', JStr ''dp1''), (''logical_device_id'', JStr ''ld1''),
                   (''interfaces'', JList []), (''label'', JNull)])]
   \<and> main Design (template_task JNull ''absent'')
        (stub (snapshot [JDict [(''id'', JStr ''t1''), (''display_name'', JStr ''tpl'')]]) 200 JNull)
      = ([GET (Sub ''design'' (JStr ''templates''))], Fail_json (Exception TypeError))
   \<and> main Design (template_task JNull ''present'') (stub (snapshot []) 201 JNull)
      = ([GET (Sub ''design'' (JStr ''templates''))], Fail_json (Exception TypeError))"
  using C8_fetch_comes_first [of Interface_maps "interface_map_task JNull ''absent''"
      "stub (snapshot [JDict [(''id'', JStr ''i1''), (''label'', JStr ''im1'')]]) 200 JNull"
      "[(''items'', JList [JDict [(''id'', JStr ''i1''), (''label'', JStr ''im1'')]])]"
      "[JDict [(''id'', JStr ''i1''), (''label'', JStr ''im1'')]]"]
    C8_fetch_comes_first [of Interface_maps "interface_map_task JNull ''present''"
      "stub (snapshot [JDict [(''id'', JStr ''i1''), (''label'', JStr ''im1'')]]) 201 JNull"
      "[(''items'', JList [JDict [(''id'', JStr ''i1''), (''label'', JStr ''im1'')]])]"
      "[JDict [(''id'', JStr ''i1''), (''label'', JStr ''im1'')]]"
      "JDict [(''device_profile_id'', JStr ''dp1''), (''logical_device_id'', JStr ''ld1''),
                   (''interfaces'', JList []), (''label'', JNull)]"]
    C8_fetch_comes_first [of Templates "template_task JNull ''absent''"
      "stub (snapshot [JDict [(''id'', JStr ''t1''), (''display_name'', JStr ''tpl'')]]) 200 JNull"
      "[(''items'', JList [JDict [(''id'', JStr ''t1''), (''display_name'', JStr ''tpl'')]])]"]
    C8_fetch_comes_first [of Templates "template_task JNull ''present''"
      "stub (snapshot []) 201 JNull" "[(''items'', JList [])]"]
  by (simp add: fetched_def stub_def snapshot_def interface_map_task_def template_task_def
      param_def picked_def)

text \<open>
  Claim C9 says that an entry without the identity field counts as a non-match and that
  the loop never fails. An IP pool collection whose one entry has no \<open>display_name\<close>
  makes \<open>each['display_name']\<close> raise, and the run ends in \<open>fail_json\<close>.
\<close>
theorem C9_counterexample:
  "py_getitem (JDict [(''id'', JStr ''abc'')]) ''display_name'' = Inl (KeyError ''display_name'')
   \<and> main Resources (pool_task JNull JNull ''absent'')
        (stub (snapshot [JDict [(''id'', JStr ''abc'')]]) 200 JNull)
      = ([GET (Sub ''resources'' (JStr ''ip-pools''))],
         Fail_json (Exception (KeyError ''display_name'')))"
  by (simp add: run_defs)

text \<open>
  Claim C9, amended: when the loop reaches an entry that is a dictionary without the
  identity field, the entries before it having been read without an exception, the run
  ends right there with the \<open>KeyError\<close> of that field as a failure, and no create or
  delete is made, whatever the state and whatever follows in the collection.
\<close>
theorem C9_missing_field_raises:
  assumes "selected k ps" and "status_code (fetched k rest) = 200"
    and "json (fetched k rest) = JDict b"
    and "map_of b ''items'' = Some (JList (pre @ JDict entry # post))"
    and "scan k ps pre (fresh k) = Inr d"
    and "map_of entry (key_field k) = None"
  shows "main (plugin_of k) ps rest
    = ([GET (fetch_path k)], Fail_json (Exception (KeyError (key_field k))))"
proof -
  have "py_getitem (JDict entry) (key_field k) = Inl (KeyError (key_field k))"
    using assms(6) by simp
  from scan_missing_field [OF assms(5) this]
  have "find_element k ps (json (fetched k rest)) = Inl (KeyError (key_field k))"
    using assms(3,4) by (simp add: find_element_items)
  with assms(1,2,3) show ?thesis by (simp add: main_raises)
qed

theorem C9_missing_field_raises_witness:
  "main Resources (pool_task JNull JNull ''present'')
        (stub (snapshot [pool_entry ''abc'' ''other'', JDict [(''id'', JStr ''def'')],
                         pool_entry ''ghi'' ''cicd_test'']) 200 JNull)
      = ([GET (Sub ''resources'' (JStr ''ip-pools''))],
         Fail_json (Exception (KeyError ''display_name'')))"
  using C9_missing_field_raises [of Ipv4_pool "pool_task JNull JNull ''present''"
      "stub (snapshot [pool_entry ''abc'' ''other'', JDict [(''id'', JStr ''def'')],
                         pool_entry ''ghi'' ''cicd_test'']) 200 JNull"
      "[(''items'', JList [pool_entry ''abc'' ''other'', JDict [(''id'', JStr ''def'')],
                         pool_entry ''ghi'' ''cicd_test''])]"
      "[pool_entry ''abc'' ''other'']" "[(''id'', JStr ''def'')]" "[pool_entry ''ghi'' ''cicd_test'']"
      "fresh Ipv4_pool"]
  by (simp add: fetched_def stub_def pool_task_def snapshot_def pool_entry_def is_match_def param_def)

text \<open>
  Claim C10: a blueprint task with state \<open>absent\<close>, against a collection in which no
  entry's label equals the declared one, ends with \<open>changed = false\<close> and the text
  "Interface Mapping does not exist, exiting", which is the message of the interface map
  function.
\<close>
theorem C10_blueprint_not_found_message:
  assumes "status_code (rest_get rest (Lit ''blueprints'')) = 200"
    and "json (rest_get rest (Lit ''blueprints'')) = JDict b"
    and "map_of b ''items'' = Some (JList es)"
    and "\<forall>x\<in>set es. is_match Build_blueprint ps x = Inr False"
    and "param ps ''state'' = Inr (JStr ''absent'')"
  shows "main Blueprint ps rest =
      ([GET (Lit ''blueprints'')], Exit_json False (JStr ''Interface Mapping does not exist, exiting''))
    \<and> does_not_exist Build_blueprint = does_not_exist Interface_maps"
proof -
  from assms(3,4) have "find_element Build_blueprint ps (JDict b) = Inr (fresh Build_blueprint)"
    by (simp add: find_element_items scan_all_false)
  with assms(1,2,5) show ?thesis
    using main_nothing_to_delete [of Build_blueprint ps rest] by (simp add: fetched_def)
qed

theorem C10_blueprint_not_found_message_witness:
  "main Blueprint (blueprint_task ''bp1'' ''absent'')
        (stub (snapshot [JDict [(''id'', JStr ''b7''), (''label'', JStr ''other'')]]) 200 JNull)
      = ([GET (Lit ''blueprints'')],
         Exit_json False (JStr ''Interface Mapping does not exist, exiting''))"
  using C10_blueprint_not_found_message [of
      "stub (snapshot [JDict [(''id'', JStr ''b7''), (''label'', JStr ''other'')]]) 200 JNull"
      "[(''items'', JList [JDict [(''id'', JStr ''b7''), (''label'', JStr ''other'')]])]"
      "[JDict [(''id'', JStr ''b7''), (''label'', JStr ''other'')]]"
      "blueprint_task ''bp1'' ''absent''"]
  by (simp add: stub_def snapshot_def blueprint_task_def is_match_def param_def)

end
